theory Spec2Isabelle
  imports Main "HOL-Library.State_Monad" "HOL-Library.Sublist"
begin

section \<open>The external-scope scheduler of \<^verbatim>\<open>xdist/scheduler/loadexternal.py\<close>\<close>

text \<open>
  The class \<^verbatim>\<open>LoadExternalScheduling\<close> adds two things to its base class: a
  constructor that fills the dictionary \<^verbatim>\<open>self.scopes\<close> from a two-column CSV file, and
  the method \<^verbatim>\<open>_split_scope\<close> that maps a node id to the name of its scope through a
  chain of dictionary lookups. Both are embedded here. The base class
  (\<^verbatim>\<open>loadscope.py\<close>) and the \<^verbatim>\<open>Producer\<close> logger are other modules; of the
  object only the two attributes the subclass itself assigns are kept.

  Python strings are modelled as \<^typ>\<open>string\<close>. The separators the code searches for,
  \<^verbatim>\<open>[\<close> and \<^verbatim>\<open>::\<close>, are ASCII, so searching and cutting bytes agrees with
  searching and cutting code points.
\<close>

subsection \<open>Python primitives used by the module\<close>

text \<open>
  The truth value of \<^verbatim>\<open>if x:\<close> for a value that is \<^verbatim>\<open>None\<close> or a string:
  \<^verbatim>\<open>None\<close> and the empty string are false.
\<close>

definition truthy :: "string option \<Rightarrow> bool" where
  "truthy v = (case v of None \<Rightarrow> False | Some s \<Rightarrow> s \<noteq> [])"

text \<open>
  \<^verbatim>\<open>s.index(sub)\<close>: the lowest index at which \<^verbatim>\<open>sub\<close> starts in \<^verbatim>\<open>s\<close>;
  \<^verbatim>\<open>ValueError\<close> (here \<open>None\<close>) when there is none.
\<close>

fun str_index :: "string \<Rightarrow> string \<Rightarrow> nat option" where
  "str_index [] sub = (if sub = [] then Some 0 else None)"
| "str_index (c # cs) sub =
     (if prefix sub (c # cs) then Some 0 else map_option Suc (str_index cs sub))"

text \<open>
  \<^verbatim>\<open>s.split(sep)\<close> for a separator: the string is scanned from the left, every
  occurrence of the separator found ends a part, and the scan goes on behind it. The
  result always has at least one part. Python refuses an empty separator with
  \<^verbatim>\<open>ValueError\<close>; the module only ever passes \<^verbatim>\<open>"::"\<close>, and an empty separator
  never splits here.
\<close>

fun str_split :: "string \<Rightarrow> string \<Rightarrow> string list" where
  "str_split sep [] = [[]]"
| "str_split sep (c # cs) =
     (if sep \<noteq> [] \<and> prefix sep (c # cs)
      then [] # str_split sep (drop (length sep) (c # cs))
      else (case str_split sep cs of p # ps \<Rightarrow> (c # p) # ps | [] \<Rightarrow> [[c]]))"

text \<open>\<^verbatim>\<open>sep.join(parts)\<close>.\<close>

fun str_join :: "string \<Rightarrow> string list \<Rightarrow> string" where
  "str_join sep [] = []"
| "str_join sep [p] = p"
| "str_join sep (p # q # ps) = p @ sep @ str_join sep (q # ps)"

subsection \<open>The scheduler object\<close>

record scheduler =
  scopes :: "string \<rightharpoonup> string"
  log :: "string list"

datatype error = RuntimeError string | OSError string

text \<open>
  The loop over the rows of the CSV reader (lines 44 to 52). A row is the list of its
  columns. A row that does not have two columns sends one message to the log and is
  passed over; a row of two columns is unpacked and stored, overwriting any earlier
  entry of the same node id.
\<close>

fun read_rows :: "string list list \<Rightarrow> scheduler \<Rightarrow> scheduler" where
  "read_rows [] self = self"
| "read_rows (row # rows) self =
     (if length row \<noteq> 2
      then read_rows rows
             (self\<lparr>log := log self @
                [''row in durations file doesn't have exactly 2 columns, ignoring'']\<rparr>)
      else (let nodeid = row ! 0; scope = row ! 1
            in read_rows rows (self\<lparr>scopes := (scopes self)(nodeid \<mapsto> scope)\<rparr>)))"

text \<open>
  The constructor. Its first argument is what \<^verbatim>\<open>config.getvalue("scopes")\<close> returns
  (\<^verbatim>\<open>None\<close> when the option is not set); the second stands for the file system and the
  CSV reader together: the rows read from the file of a given name, or the message of the
  \<^verbatim>\<open>OSError\<close> that \<^verbatim>\<open>open\<close> raises. An exception leaves no object behind.
\<close>

definition init :: "string option \<Rightarrow> (string \<Rightarrow> string + string list list) \<Rightarrow> error + scheduler" where
  "init scope_filename files =
     (let self = \<lparr>scopes = Map.empty, log = []\<rparr>
      in if \<not> truthy scope_filename then Inl (RuntimeError ''no scopes file specified'')
         else (case files (the scope_filename) of
                 Inl msg \<Rightarrow> Inl (OSError msg)
               | Inr rows \<Rightarrow> Inr (read_rows rows self)))"

subsection \<open>Resolving the scope of a node id\<close>

text \<open>
  The method reads the object and nothing else, so it is written in the state monad over
  the object: \<open>scopes_get\<close> is \<^verbatim>\<open>self.scopes.get(key)\<close>.
\<close>

definition scopes_get :: "string \<Rightarrow> (scheduler, string option) state" where
  "scopes_get key = State (\<lambda>self. (scopes self key, self))"

text \<open>
  The expression \<^verbatim>\<open>"::".join(nodeid.split("::")[:-1])\<close>, which the method evaluates
  twice (lines 95 and 101).
\<close>

definition strip_last :: "string \<Rightarrow> string" where
  "strip_last nodeid = str_join ''::'' (butlast (str_split ''::'' nodeid))"

text \<open>Lines 94 to 108: what follows the \<^verbatim>\<open>with contextlib.suppress\<close> block.\<close>

definition split_scope_components :: "string \<Rightarrow> (scheduler, string) state" where
  "split_scope_components nodeid = do {
     let nodeid = strip_last nodeid;
     scope \<leftarrow> scopes_get nodeid;
     if truthy scope then State_Monad.return (the scope)
     else do {
       let nodeid = strip_last nodeid;
       if length nodeid > 0 then do {
         scope \<leftarrow> scopes_get nodeid;
         if truthy scope then State_Monad.return (the scope)
         else State_Monad.return nodeid
       }
       else State_Monad.return nodeid
     }
   }"

text \<open>
  The method \<^verbatim>\<open>_split_scope\<close>. When \<^verbatim>\<open>nodeid.index("[")\<close> raises, the
  \<^verbatim>\<open>suppress\<close> block is left with \<^verbatim>\<open>nodeid\<close> as it was; otherwise
  \<^verbatim>\<open>nodeid\<close> is rebound to the part before the bracket, and stays so after the block.
\<close>

definition split_scope :: "string \<Rightarrow> (scheduler, string) state" where
  "split_scope nodeid = do {
     scope \<leftarrow> scopes_get nodeid;
     if truthy scope then State_Monad.return (the scope)
     else (case str_index nodeid ''['' of
             None \<Rightarrow> split_scope_components nodeid
           | Some parametrized_start_idx \<Rightarrow> do {
               let nodeid = take parametrized_start_idx nodeid;
               scope \<leftarrow> scopes_get nodeid;
               if truthy scope then State_Monad.return (the scope)
               else split_scope_components nodeid
             })
   }"

text \<open>The value a call returns on a given object.\<close>

abbreviation resolve :: "scheduler \<Rightarrow> string \<Rightarrow> string" where
  "resolve self nodeid \<equiv> fst (run_state (split_scope nodeid) self)"


section \<open>Properties\<close>

subsection \<open>The string primitives\<close>

lemma str_index_char:
  "str_index s [c] = (if c \<in> set s then Some (length (takeWhile (\<lambda>x. x \<noteq> c) s)) else None)"
  by (induction s) auto

lemma takeWhile_no_char: "c \<notin> set s \<Longrightarrow> takeWhile (\<lambda>x. x \<noteq> c) s = s"
  by (induction s) auto

lemma str_split_not_Nil: "str_split sep s \<noteq> []"
  by (induction sep s rule: str_split.induct) (auto split: list.splits)

lemma str_split_no_sep: "\<not> sublist sep s \<Longrightarrow> str_split sep s = [s]"
proof (induction sep s rule: str_split.induct)
  case (1 sep)
  then show ?case by simp
next
  case (2 sep c cs)
  then show ?case by (auto simp: sublist_Cons_right)
qed

lemma str_join_Cons_Cons: "str_join sep ((c # p) # ps) = c # str_join sep (p # ps)"
  by (cases ps) simp_all

lemma str_join_Nil_Cons: "ps \<noteq> [] \<Longrightarrow> str_join sep ([] # ps) = sep @ str_join sep ps"
  by (cases ps) simp_all

text \<open>Joining the parts of a split gives the string back.\<close>

lemma str_join_str_split: "str_join sep (str_split sep s) = s"
proof (induction sep s rule: str_split.induct)
  case (1 sep)
  show ?case by simp
next
  case (2 sep c cs)
  show ?case
  proof (cases "sep \<noteq> [] \<and> prefix sep (c # cs)")
    case True
    then have "sep @ drop (length sep) (c # cs) = c # cs"
      by (metis append_take_drop_id prefix_def append_eq_conv_conj)
    with True 2 show ?thesis
      by (simp add: str_join_Nil_Cons str_split_not_Nil)
  next
    case False
    obtain p ps where ps: "str_split sep cs = p # ps"
      using str_split_not_Nil [of sep cs] by (cases "str_split sep cs") auto
    with False 2 show ?thesis
      by (auto simp: str_join_Cons_Cons)
  qed
qed

lemma prefix_str_join_butlast: "prefix (str_join sep (butlast ps)) (str_join sep ps)"
proof (induction sep ps rule: str_join.induct)
  case (3 sep p q ps)
  then show ?case by (cases ps) auto
qed simp_all

text \<open>
  Removing the last component leaves a prefix of the node id, and nothing at all when the
  node id has no separator.
\<close>

lemma prefix_strip_last: "prefix (strip_last s) s"
  using prefix_str_join_butlast [of "''::''" "str_split ''::'' s"]
  by (simp add: strip_last_def str_join_str_split)

lemma strip_last_Nil: "strip_last [] = []"
  by (simp add: strip_last_def)

lemma strip_last_no_sep: "\<not> sublist ''::'' s \<Longrightarrow> strip_last s = []"
  by (simp add: strip_last_def str_split_no_sep)

subsection \<open>The method as a chain of lookups\<close>

lemma run_state_scopes_get: "run_state (scopes_get key) self = (scopes self key, self)"
  by (simp add: scopes_get_def)

lemma run_state_split_scope_components:
  "run_state (split_scope_components nodeid) self =
     (if truthy (scopes self (strip_last nodeid)) then the (scopes self (strip_last nodeid))
      else if strip_last (strip_last nodeid) \<noteq> [] \<and>
              truthy (scopes self (strip_last (strip_last nodeid)))
           then the (scopes self (strip_last (strip_last nodeid)))
           else strip_last (strip_last nodeid), self)"
  by (simp add: split_scope_components_def run_state_scopes_get Let_def)


lemma run_state_split_scope:
  "run_state (split_scope nodeid) self =
     (if truthy (scopes self nodeid) then (the (scopes self nodeid), self)
      else if truthy (scopes self (takeWhile (\<lambda>c. c \<noteq> CHR ''['') nodeid))
           then (the (scopes self (takeWhile (\<lambda>c. c \<noteq> CHR ''['') nodeid)), self)
           else run_state (split_scope_components (takeWhile (\<lambda>c. c \<noteq> CHR ''['') nodeid)) self)"
  by (auto simp: split_scope_def run_state_scopes_get Let_def str_index_char takeWhile_no_char
      takeWhile_eq_take[symmetric] split: option.splits)

text \<open>
  When none of the lookups finds a truthy entry, the method answers with what is left of
  the identifier after its parameters and two components have been taken off.
\<close>

lemma resolve_unmatched:
  assumes "\<not> truthy (scopes self nodeid)"
    and "\<not> truthy (scopes self (takeWhile (\<lambda>c. c \<noteq> CHR ''['') nodeid))"
    and "\<not> truthy (scopes self (strip_last (takeWhile (\<lambda>c. c \<noteq> CHR ''['') nodeid)))"
    and "\<not> truthy (scopes self (strip_last (strip_last (takeWhile (\<lambda>c. c \<noteq> CHR ''['') nodeid))))"
  shows "resolve self nodeid = strip_last (strip_last (takeWhile (\<lambda>c. c \<noteq> CHR ''['') nodeid))"
  using assms by (simp add: run_state_split_scope run_state_split_scope_components)

text \<open>A scope key that comes from the table is never empty.\<close>

lemma resolve_from_table_not_empty:
  "scopes self key = Some (resolve self nodeid) \<Longrightarrow> truthy (scopes self key) \<Longrightarrow>
   resolve self nodeid \<noteq> []"
  by (auto simp: truthy_def)

lemmas resolve_eval =
  run_state_split_scope run_state_split_scope_components truthy_def strip_last_def

subsection \<open>The constructor's loop\<close>

lemma read_rows_append: "read_rows (rows @ rows') self = read_rows rows' (read_rows rows self)"
  by (induction rows arbitrary: self) (simp_all add: Let_def)

text \<open>The table the loop builds depends on the table it starts from, not on the log.\<close>

lemma scopes_read_rows_cong:
  "scopes self = scopes self' \<Longrightarrow> scopes (read_rows rows self) = scopes (read_rows rows self')"
proof (induction rows arbitrary: self self')
  case Nil
  then show ?case by simp
next
  case (Cons row rows)
  show ?case
  proof (cases "length row = 2")
    case True
    have "scopes (self\<lparr>scopes := (scopes self)(row ! 0 \<mapsto> row ! 1)\<rparr>) =
          scopes (self'\<lparr>scopes := (scopes self')(row ! 0 \<mapsto> row ! 1)\<rparr>)"
      using Cons.prems by simp
    from Cons.IH [OF this] True show ?thesis
      by (simp add: Let_def)
  next
    case False
    have "scopes (self\<lparr>log := log self @
            [''row in durations file doesn't have exactly 2 columns, ignoring'']\<rparr>) =
          scopes (self'\<lparr>log := log self' @
            [''row in durations file doesn't have exactly 2 columns, ignoring'']\<rparr>)"
      using Cons.prems by simp
    from Cons.IH [OF this] False show ?thesis
      by simp
  qed
qed

lemma scopes_read_rows_log:
  "scopes (read_rows rows (self\<lparr>log := l\<rparr>)) = scopes (read_rows rows self)"
  by (rule scopes_read_rows_cong) simp

lemma scopes_read_rows_filter:
  "scopes (read_rows rows self) = scopes (read_rows (filter (\<lambda>row. length row = 2) rows) self)"
  by (induction rows arbitrary: self) (simp_all add: Let_def scopes_read_rows_log)

lemma log_read_rows:
  "log (read_rows rows self) =
     log self @ replicate (length (filter (\<lambda>row. length row \<noteq> 2) rows))
       ''row in durations file doesn't have exactly 2 columns, ignoring''"
  by (induction rows arbitrary: self) (simp_all add: Let_def replicate_append_same)

lemma scopes_read_rows_other:
  "\<forall>row \<in> set rows. length row = 2 \<longrightarrow> row ! 0 \<noteq> nodeid \<Longrightarrow>
   scopes (read_rows rows self) nodeid = scopes self nodeid"
  by (induction rows arbitrary: self) (auto simp: Let_def)

lemma init_reads:
  "truthy scope_filename \<Longrightarrow> files (the scope_filename) = Inr rows \<Longrightarrow>
   init scope_filename files = Inr (read_rows rows \<lparr>scopes = Map.empty, log = []\<rparr>)"
  by (simp add: init_def)


section \<open>The claims of the specification\<close>

subsection \<open>Resolution\<close>

text \<open>
  Claim C1: for every test identifier and every scope table, \<^verbatim>\<open>_split_scope\<close>
  terminates and returns a non-empty scope key.

  The method does terminate: \<^const>\<open>split_scope\<close> is a total function built from total
  functions. A scope key found in the table is non-empty as well, since an empty one is not
  truthy. What no lookup finds is answered with the value \<^verbatim>\<open>nodeid\<close> holds at line 108,
  and by then the identifier has lost its parameters and two components. For an
  identifier of two components nothing is left: the method returns the empty string,
  where its documentation promises the exact node id.
\<close>

theorem split_scope_returns_empty:
  "resolve \<lparr>scopes = Map.empty, log = []\<rparr> ''a.py::t'' = []"
  by (simp add: resolve_eval)

text \<open>
  Claim C2: an identifier that no lookup matches at any level is returned as it was given,
  so that the unmapped siblings \<^verbatim>\<open>mod.py::test[x]\<close> and \<^verbatim>\<open>mod.py::test[y]\<close> are two
  scopes of one test each.

  The code returns the rebound variable instead, and both siblings come out as the same,
  empty, scope key.
\<close>

theorem unmapped_siblings_share_empty_scope:
  "resolve \<lparr>scopes = Map.empty, log = []\<rparr> ''mod.py::test[x]'' = [] \<and>
   resolve \<lparr>scopes = Map.empty, log = []\<rparr> ''mod.py::test[y]'' = []"
  by (simp add: resolve_eval)

text \<open>
  Claim C3, as amended: when the identifier itself and its part before the first bracket
  are both unmatched, the third lookup is made on that part before the bracket (the whole
  identifier when it has no bracket) with its last \<^verbatim>\<open>::\<close> component removed, and the
  fourth on the same with its last two components removed, provided that key is not
  empty. A truthy entry found there is the result. When it is the removal of the second
  component that leaves the empty key, no lookup is made on it: the result is the same
  whatever the table holds for the empty key.
\<close>

theorem component_steps_after_parametrization:
  assumes "\<not> truthy (scopes self nodeid)"
    and "\<not> truthy (scopes self (takeWhile (\<lambda>c. c \<noteq> CHR ''['') nodeid))"
  shows "(truthy (scopes self (strip_last (takeWhile (\<lambda>c. c \<noteq> CHR ''['') nodeid))) \<longrightarrow>
            Some (resolve self nodeid) =
              scopes self (strip_last (takeWhile (\<lambda>c. c \<noteq> CHR ''['') nodeid))) \<and>
         (\<not> truthy (scopes self (strip_last (takeWhile (\<lambda>c. c \<noteq> CHR ''['') nodeid))) \<and>
          strip_last (strip_last (takeWhile (\<lambda>c. c \<noteq> CHR ''['') nodeid)) \<noteq> [] \<and>
          truthy (scopes self (strip_last (strip_last (takeWhile (\<lambda>c. c \<noteq> CHR ''['') nodeid)))) \<longrightarrow>
            Some (resolve self nodeid) =
              scopes self (strip_last (strip_last (takeWhile (\<lambda>c. c \<noteq> CHR ''['') nodeid)))) \<and>
         (strip_last (takeWhile (\<lambda>c. c \<noteq> CHR ''['') nodeid) \<noteq> [] \<and>
          strip_last (strip_last (takeWhile (\<lambda>c. c \<noteq> CHR ''['') nodeid)) = [] \<longrightarrow>
            resolve (self\<lparr>scopes := (scopes self)([] := entry)\<rparr>) nodeid = resolve self nodeid)"
proof -
  let ?b = "takeWhile (\<lambda>c. c \<noteq> CHR ''['') nodeid"
  have found: "(truthy (scopes self (strip_last ?b)) \<longrightarrow>
      Some (resolve self nodeid) = scopes self (strip_last ?b)) \<and>
    (\<not> truthy (scopes self (strip_last ?b)) \<and> strip_last (strip_last ?b) \<noteq> [] \<and>
     truthy (scopes self (strip_last (strip_last ?b))) \<longrightarrow>
      Some (resolve self nodeid) = scopes self (strip_last (strip_last ?b)))"
    using assms
    by (auto simp: run_state_split_scope run_state_split_scope_components truthy_def
        split: option.splits)
  have guard: "resolve (self\<lparr>scopes := (scopes self)([] := entry)\<rparr>) nodeid = resolve self nodeid"
    if "strip_last ?b \<noteq> []" and "strip_last (strip_last ?b) = []"
  proof -
    from that(1) have b: "?b \<noteq> []"
      by (auto simp: strip_last_Nil)
    then have n: "nodeid \<noteq> []"
      by auto
    from that b n show ?thesis
      by (simp add: run_state_split_scope run_state_split_scope_components)
  qed
  from found guard show ?thesis
    by blast
qed

text \<open>
  An identifier whose parameters contain the separator: the class and the file are found
  because the components are taken off the part before the bracket. And an identifier of
  two components: an entry for the empty key changes nothing.
\<close>

theorem component_steps_after_parametrization_witness:
  "resolve \<lparr>scopes = [''a.py::C'' \<mapsto> ''S''], log = []\<rparr> ''a.py::C::t[x::y]'' = ''S'' \<and>
   resolve \<lparr>scopes = [''a.py'' \<mapsto> ''F''], log = []\<rparr> ''a.py::C::t[x::y]'' = ''F'' \<and>
   resolve \<lparr>scopes = [[] \<mapsto> ''S''], log = []\<rparr> ''a.py::t'' =
     resolve \<lparr>scopes = Map.empty, log = []\<rparr> ''a.py::t''"
  using
    component_steps_after_parametrization
      [where self = "\<lparr>scopes = [''a.py::C'' \<mapsto> ''S''], log = []\<rparr>"
         and nodeid = "''a.py::C::t[x::y]''"]
    component_steps_after_parametrization
      [where self = "\<lparr>scopes = [''a.py'' \<mapsto> ''F''], log = []\<rparr>"
         and nodeid = "''a.py::C::t[x::y]''"]
    component_steps_after_parametrization
      [where self = "\<lparr>scopes = Map.empty, log = []\<rparr>"
         and nodeid = "''a.py::t''" and entry = "Some ''S''"]
  by (simp add: truthy_def strip_last_def)

text \<open>
  Claim C3 as the specification states it, with the components taken off the identifier
  as given, fails. The identifier \<^verbatim>\<open>a[1]/b.py::C::t\<close> without its last component is
  \<^verbatim>\<open>a[1]/b.py::C\<close>, and the table maps that key, yet the method does not find it. The
  identifier \<^verbatim>\<open>a.py::C::t[x::y]\<close> without its last two components is \<^verbatim>\<open>a.py::C\<close>,
  yet the method finds the entry of \<^verbatim>\<open>a.py\<close>. And \<^verbatim>\<open>a.py::t\<close> without its last two
  components is the empty string, which the table maps, yet the fourth step makes no
  lookup.
\<close>

theorem component_steps_as_given_counterexample:
  "strip_last ''a[1]/b.py::C::t'' = ''a[1]/b.py::C'' \<and>
   resolve \<lparr>scopes = [''a[1]/b.py::C'' \<mapsto> ''S''], log = []\<rparr> ''a[1]/b.py::C::t'' = [] \<and>
   strip_last ''a.py::C::t[x::y]'' = ''a.py::C::t[x'' \<and>
   strip_last (strip_last ''a.py::C::t[x::y]'') = ''a.py::C'' \<and>
   resolve \<lparr>scopes = [''a.py'' \<mapsto> ''F''], log = []\<rparr> ''a.py::C::t[x::y]'' = ''F'' \<and>
   strip_last (strip_last ''a.py::t'') = [] \<and>
   resolve \<lparr>scopes = [[] \<mapsto> ''S''], log = []\<rparr> ''a.py::t'' = []"
  by (simp add: resolve_eval)

text \<open>
  Claim C4: for an identifier that contains a bracket and whose exact form has no truthy
  entry, the next lookup is made on the identifier cut before its first bracket; with
  \<^verbatim>\<open>mod.py::test\<close> mapped to \<^verbatim>\<open>S\<close>, both \<^verbatim>\<open>mod.py::test[x]\<close> and
  \<^verbatim>\<open>mod.py::test[y]\<close> resolve to \<^verbatim>\<open>S\<close>.
\<close>

theorem parametrization_lookup:
  assumes "CHR ''['' \<in> set nodeid"
    and "\<not> truthy (scopes self nodeid)"
    and "scopes self (takeWhile (\<lambda>c. c \<noteq> CHR ''['') nodeid) = Some scope"
    and "scope \<noteq> []"
  shows "resolve self nodeid = scope"
  using assms by (simp add: run_state_split_scope truthy_def)

theorem parametrization_lookup_witness:
  "resolve \<lparr>scopes = [''mod.py::test'' \<mapsto> ''S''], log = []\<rparr> ''mod.py::test[x]'' = ''S'' \<and>
   resolve \<lparr>scopes = [''mod.py::test'' \<mapsto> ''S''], log = []\<rparr> ''mod.py::test[y]'' = ''S''"
  using
    parametrization_lookup
      [of "''mod.py::test[x]''" "\<lparr>scopes = [''mod.py::test'' \<mapsto> ''S''], log = []\<rparr>" "''S''"]
    parametrization_lookup
      [of "''mod.py::test[y]''" "\<lparr>scopes = [''mod.py::test'' \<mapsto> ''S''], log = []\<rparr>" "''S''"]
  by (simp add: truthy_def)

text \<open>
  Claim C5: resolving is a pure, deterministic function of the scope table and the
  identifier. A call leaves the object as it found it; on two objects with the same table
  (whatever else they hold) it returns the same scope key; and two calls in a row on the
  same identifier return the same key twice and leave the object unchanged.
\<close>

theorem split_scope_pure:
  "snd (run_state (split_scope nodeid) self) = self \<and>
   (scopes self' = scopes self \<longrightarrow> resolve self' nodeid = resolve self nodeid) \<and>
   run_state (do { a \<leftarrow> split_scope nodeid; b \<leftarrow> split_scope nodeid; State_Monad.return (a, b) }) self =
     ((resolve self nodeid, resolve self nodeid), self)"
  by (simp add: run_state_split_scope run_state_split_scope_components split: prod.splits)

theorem split_scope_pure_witness:
  "snd (run_state (split_scope ''mod.py::test[x]'')
         \<lparr>scopes = [''mod.py::test'' \<mapsto> ''S''], log = []\<rparr>) =
     \<lparr>scopes = [''mod.py::test'' \<mapsto> ''S''], log = []\<rparr> \<and>
   resolve \<lparr>scopes = [''mod.py::test'' \<mapsto> ''S''], log = [''seen'']\<rparr> ''mod.py::test[x]'' =
     resolve \<lparr>scopes = [''mod.py::test'' \<mapsto> ''S''], log = []\<rparr> ''mod.py::test[x]''"
  using split_scope_pure
    [of "''mod.py::test[x]''" "\<lparr>scopes = [''mod.py::test'' \<mapsto> ''S''], log = []\<rparr>"
      "\<lparr>scopes = [''mod.py::test'' \<mapsto> ''S''], log = [''seen'']\<rparr>"]
  by simp


subsection \<open>Construction\<close>

text \<open>
  Claim C6: while the table is built, every row whose number of columns is not two is
  passed over with one message to the log and adds nothing to the table, and the
  construction goes on and succeeds. Whenever a file name is configured and the file can
  be read, the constructor returns an object; its table is the one the rows of two
  columns alone produce, and its log holds one message for each other row.
\<close>

theorem malformed_rows_skipped:
  assumes "truthy scope_filename" and "files (the scope_filename) = Inr rows"
  shows "\<exists>self. init scope_filename files = Inr self \<and>
           scopes self =
             scopes (read_rows (filter (\<lambda>row. length row = 2) rows)
                       \<lparr>scopes = Map.empty, log = []\<rparr>) \<and>
           log self =
             replicate (length (filter (\<lambda>row. length row \<noteq> 2) rows))
               ''row in durations file doesn't have exactly 2 columns, ignoring''"
  using assms init_reads [of scope_filename files rows]
    scopes_read_rows_filter [of rows] log_read_rows [of rows]
  by simp

text \<open>A file with a row of three columns before a row of two.\<close>

theorem malformed_rows_skipped_witness:
  "\<exists>self. init (Some ''scopes.csv'') (\<lambda>name. Inr [[''a'', ''b'', ''c''], [''k'', ''v'']]) = Inr self \<and>
     scopes self ''a'' = None \<and> scopes self ''k'' = Some ''v'' \<and>
     log self = [''row in durations file doesn't have exactly 2 columns, ignoring'']"
proof -
  have "truthy (Some ''scopes.csv'')"
    by (simp add: truthy_def)
  from malformed_rows_skipped [OF this, of "\<lambda>name. Inr [[''a'', ''b'', ''c''], [''k'', ''v'']]"
      "[[''a'', ''b'', ''c''], [''k'', ''v'']]"]
  show ?thesis by (auto simp: Let_def)
qed

text \<open>
  Claim C7: when no scopes file is configured (the option is unset or the empty string),
  the constructor raises the error \<^verbatim>\<open>no scopes file specified\<close> and no scheduler
  object comes into being, whatever the file system holds.
\<close>

theorem init_without_scopes_file:
  assumes "scope_filename = None \<or> scope_filename = Some []"
  shows "init scope_filename files = Inl (RuntimeError ''no scopes file specified'')"
  using assms by (auto simp: init_def truthy_def)

theorem init_without_scopes_file_witness:
  "init None (\<lambda>name. Inr [[''k'', ''v'']]) = Inl (RuntimeError ''no scopes file specified'') \<and>
   init (Some []) (\<lambda>name. Inr [[''k'', ''v'']]) = Inl (RuntimeError ''no scopes file specified'')"
  using init_without_scopes_file [of None] init_without_scopes_file [of "Some []"]
  by simp

text \<open>
  Claim C8: when the file holds several rows of two columns with the same identifier, the
  table built by the constructor maps the identifier to the scope key of the last of them
  in the order of the file.
\<close>

theorem last_record_wins:
  assumes "truthy scope_filename"
    and "files (the scope_filename) = Inr (before @ [nodeid, scope] # after)"
    and "\<forall>row \<in> set after. length row = 2 \<longrightarrow> row ! 0 \<noteq> nodeid"
  shows "\<exists>self. init scope_filename files = Inr self \<and> scopes self nodeid = Some scope"
  using assms(1,2) init_reads [of scope_filename files "before @ [nodeid, scope] # after"]
    scopes_read_rows_other [OF assms(3)]
  by (simp add: read_rows_append Let_def)

theorem last_record_wins_witness:
  "\<exists>self. init (Some ''scopes.csv'')
            (\<lambda>name. Inr [[''k'', ''first''], [''k'', ''second''], [''j'', ''w'']]) = Inr self \<and>
          scopes self ''k'' = Some ''second''"
proof -
  have "truthy (Some ''scopes.csv'')"
    by (simp add: truthy_def)
  from last_record_wins [OF this, of "\<lambda>name. Inr [[''k'', ''first''], [''k'', ''second''], [''j'', ''w'']]"
      "[[''k'', ''first'']]" "''k''" "''second''" "[[''j'', ''w'']]"]
  show ?thesis by simp
qed

subsection \<open>Empty scope keys and the empty identifier\<close>

text \<open>
  Claim C9: a row whose scope key is the empty string is stored in the table, but no
  lookup of the method takes notice of it: the method returns what it would return on the
  table with every such entry removed.
\<close>

theorem empty_scope_ignored:
  "scopes (read_rows (rows @ [[key, []]]) self) key = Some [] \<and>
   resolve self nodeid =
     resolve (self\<lparr>scopes := (\<lambda>k. if scopes self k = Some [] then None else scopes self k)\<rparr>) nodeid"
  by (simp add: read_rows_append Let_def run_state_split_scope run_state_split_scope_components
      truthy_def split: option.splits)

text \<open>
  Claim C10: the step that removes one component looks its key up even when the key is the
  empty string, the step that removes two does not. So an identifier without \<^verbatim>\<open>::\<close>
  that no earlier step matches resolves to the scope key of the empty identifier when the
  table has a non-empty one; but when it is the removal of the second component that
  leaves the empty string, the result is the empty string whatever the table holds for it.
\<close>

theorem empty_key_lookup:
  "(\<not> sublist ''::'' nodeid \<and> \<not> truthy (scopes self nodeid) \<and>
    \<not> truthy (scopes self (takeWhile (\<lambda>c. c \<noteq> CHR ''['') nodeid)) \<and>
    scopes self [] = Some scope \<and> scope \<noteq> [] \<longrightarrow> resolve self nodeid = scope) \<and>
   (\<not> truthy (scopes self nodeid) \<and>
    \<not> truthy (scopes self (takeWhile (\<lambda>c. c \<noteq> CHR ''['') nodeid)) \<and>
    \<not> truthy (scopes self (strip_last (takeWhile (\<lambda>c. c \<noteq> CHR ''['') nodeid))) \<and>
    strip_last (takeWhile (\<lambda>c. c \<noteq> CHR ''['') nodeid) \<noteq> [] \<and>
    strip_last (strip_last (takeWhile (\<lambda>c. c \<noteq> CHR ''['') nodeid)) = [] \<longrightarrow>
    resolve self nodeid = [])"
proof -
  have "strip_last (takeWhile (\<lambda>c. c \<noteq> CHR ''['') nodeid) = []" if "\<not> sublist ''::'' nodeid"
  proof -
    have "\<not> sublist ''::'' (takeWhile (\<lambda>c. c \<noteq> CHR ''['') nodeid)"
      using that sublist_order.order.trans [OF _ sublist_takeWhile] by blast
    then show ?thesis by (rule strip_last_no_sep)
  qed
  then show ?thesis
    by (auto simp: run_state_split_scope run_state_split_scope_components truthy_def)
qed

theorem empty_key_lookup_witness:
  "resolve \<lparr>scopes = [[] \<mapsto> ''S''], log = []\<rparr> ''test_a'' = ''S'' \<and>
   resolve \<lparr>scopes = [[] \<mapsto> ''S''], log = []\<rparr> ''test_a[x]'' = ''S'' \<and>
   resolve \<lparr>scopes = [[] \<mapsto> ''S''], log = []\<rparr> ''a.py::t'' = []"
  using empty_key_lookup [of "''test_a''" "\<lparr>scopes = [[] \<mapsto> ''S''], log = []\<rparr>" "''S''"]
    empty_key_lookup [of "''test_a[x]''" "\<lparr>scopes = [[] \<mapsto> ''S''], log = []\<rparr>" "''S''"]
    empty_key_lookup [of "''a.py::t''" "\<lparr>scopes = [[] \<mapsto> ''S''], log = []\<rparr>" "''S''"]
  by (simp add: truthy_def strip_last_def sublist_Cons_right)

end
